theory Spec2Isabelle
  imports Main "HOL-Library.Char_ord" "HOL-Library.List_Lexorder"
begin

section \<open>The relational store (database.js)\<close>

text \<open>
  The store is the SQLite file opened by database.js with \<^verbatim>\<open>foreign_keys = ON\<close>.
  Each table is a list of rows in insertion order. Columns restricted by a CHECK
  constraint to a fixed set of strings are datatypes; nullable columns are options.
  Amounts (\<^verbatim>\<open>jumlah INTEGER NOT NULL\<close>) are integers; SQLite holds and adds
  them in 64 bits, which the aggregates below check. Row ids and the acting user
  id are natural numbers. Of the timestamp columns only those of
  the transactions table are kept, because \<^verbatim>\<open>markAsLunas\<close> writes one of them;
  the clock is an argument \<open>now\<close>.
\<close>

datatype role = Admin | Staff

datatype tipe = Internet | Gas

datatype jenis = Pemasukan | Pengeluaran

datatype status = Pending | Lunas

datatype log_status = Success | Failed | LogPending

record user =
  u_id :: nat
  username :: string
  password :: string
  nama_lengkap :: string
  u_role :: role
  u_aktif :: int

record customer =
  c_id :: nat
  nama :: string
  tipe :: tipe
  whatsapp :: string
  username_pppoe :: "string option"
  password_pppoe :: "string option"
  alamat :: "string option"
  aktif :: int
  c_created_by :: "nat option"

record transaction =
  t_id :: nat
  customer_id :: nat
  customer_nama :: string
  customer_tipe :: string
  kategori :: string
  jumlah :: int
  jenis :: jenis
  status :: status
  deskripsi :: "string option"
  created_by :: "nat option"
  created_at :: nat
  updated_at :: nat

record message_log =
  m_id :: nat
  m_customer_id :: "nat option"
  m_customer_nama :: "string option"
  phone :: string
  message_type :: string
  m_status :: log_status
  message_preview :: "string option"
  error_message :: "string option"
  sent_by :: "nat option"

record activity_log =
  a_id :: nat
  user_id :: "nat option"
  action :: string
  details :: string
  ip_address :: string

text \<open>
  The \<open>seq_\<close> fields are the rows of \<^verbatim>\<open>sqlite_sequence\<close> kept for the
  AUTOINCREMENT keys: the largest row id a table has ever held.
\<close>

record db =
  users :: "user list"
  customers :: "customer list"
  transactions :: "transaction list"
  message_logs :: "message_log list"
  activity_logs :: "activity_log list"
  seq_transactions :: nat
  seq_message_logs :: nat
  seq_activity_logs :: nat

datatype error = SqliteError string | ReferenceError string | Error string

fun error_text :: "error \<Rightarrow> string" where
  "error_text (SqliteError m) = m"
| "error_text (ReferenceError m) = m"
| "error_text (Error m) = m"

subsection \<open>SQL text and numbers\<close>

text \<open>
  The store is driven through better-sqlite3, which compiles SQLite with
  \<^verbatim>\<open>SQLITE_DQS=0\<close>: bit 0 of that option allows a double-quoted token in a
  SELECT, UPDATE, INSERT or DELETE to be read as a string literal when it names
  no column, and the bit is off. With the bit off such a token is an identifier
  only, and \<^verbatim>\<open>db.prepare\<close> throws when no column of the statement's tables
  has that name. \<open>double_quoted\<close> is the exception thrown for one such token,
  if any.
\<close>

definition SQLITE_DQS :: nat where
  "SQLITE_DQS = 0"

definition transactions_columns :: "string list" where
  "transactions_columns =
     [''id'', ''customer_id'', ''customer_nama'', ''customer_tipe'', ''kategori'', ''jumlah'',
      ''jenis'', ''status'', ''deskripsi'', ''created_by'', ''created_at'', ''updated_at'']"

definition double_quoted :: "string list \<Rightarrow> string \<Rightarrow> error option" where
  "double_quoted columns w =
     (if w \<in> set columns \<or> odd SQLITE_DQS then None
      else Some (SqliteError (''no such column: '' @ [CHR 0x22] @ w @ [CHR 0x22]
                   @ '' - should this be a string literal in single-quotes?'')))"

text \<open>
  \<^verbatim>\<open>SUM\<close> over integers adds in 64 bits in row order and raises ``integer
  overflow'' when a running sum leaves that range; over no rows it is NULL, which
  \<^verbatim>\<open>COALESCE(x, 0)\<close> replaces by 0.
\<close>

definition int64 :: "int \<Rightarrow> bool" where
  "int64 x = (- (2 ^ 63) \<le> x \<and> x < 2 ^ 63)"

fun sum_int64 :: "int \<Rightarrow> int list \<Rightarrow> int option" where
  "sum_int64 acc [] = Some acc"
| "sum_int64 acc (x # xs) = (if int64 (acc + x) then sum_int64 (acc + x) xs else None)"

definition sql_sum :: "int list \<Rightarrow> error + int option" where
  "sql_sum xs =
     (if xs = [] then Inr None
      else case sum_int64 0 xs of
             None \<Rightarrow> Inl (SqliteError ''integer overflow'')
           | Some s \<Rightarrow> Inr (Some s))"

definition coalesce :: "int option \<Rightarrow> int \<Rightarrow> int" where
  "coalesce v d = (case v of None \<Rightarrow> d | Some x \<Rightarrow> x)"

text \<open>
  A 64-bit integer column value reaches JavaScript as a number, that is as the
  IEEE double nearest to it, ties going to the even significand. Up to \<open>2 ^ 53\<close>
  in magnitude that is the integer itself; beyond, the low \<open>sh\<close> bits are
  rounded away, \<open>sh\<close> being the least shift that leaves a significand of at
  most 53 bits.
\<close>

definition js_number :: "int \<Rightarrow> int" where
  "js_number x =
     (if \<bar>x\<bar> \<le> 2 ^ 53 then x
      else (let a = \<bar>x\<bar>;
                sh = (case find (\<lambda>k. a < 2 ^ (53 + k))
                             [1, 2, 3, 4, 5, 6, 7, 8, 9, 10, 11 :: nat] of
                        Some k \<Rightarrow> k | None \<Rightarrow> 12);
                q = a div 2 ^ sh;
                r = a mod 2 ^ sh;
                q' = (if 2 ^ sh < 2 * r \<or> (2 * r = 2 ^ sh \<and> odd q) then q + 1 else q)
            in sgn x * (q' * 2 ^ sh)))"

subsection \<open>Totals and debtors\<close>

record stats =
  income :: int
  expense :: int
  pending :: int
  balance :: int

text \<open>
  \<^verbatim>\<open>transactionOps.getStats\<close>: three aggregate queries, prepared and run one
  after the other, and one subtraction of JavaScript numbers. Each query
  compares a column with a word in double quotes: \<^verbatim>\<open>jenis = "pemasukan"\<close>,
  \<^verbatim>\<open>jenis = "pengeluaran"\<close>, \<^verbatim>\<open>status = "pending"\<close>.
\<close>

definition getStats :: "db \<Rightarrow> error + stats" where
  "getStats d =
     (case double_quoted transactions_columns ''pemasukan'' of
        Some e \<Rightarrow> Inl e
      | None \<Rightarrow>
     (case sql_sum (map jumlah (filter (\<lambda>t. jenis t = Pemasukan) (transactions d))) of
        Inl e \<Rightarrow> Inl e
      | Inr i \<Rightarrow>
     (case double_quoted transactions_columns ''pengeluaran'' of
        Some e \<Rightarrow> Inl e
      | None \<Rightarrow>
     (case sql_sum (map jumlah (filter (\<lambda>t. jenis t = Pengeluaran) (transactions d))) of
        Inl e \<Rightarrow> Inl e
      | Inr x \<Rightarrow>
     (case double_quoted transactions_columns ''pending'' of
        Some e \<Rightarrow> Inl e
      | None \<Rightarrow>
     (case sql_sum (map jumlah (filter (\<lambda>t. status t = Pending) (transactions d))) of
        Inl e \<Rightarrow> Inl e
      | Inr p \<Rightarrow>
          (let income = js_number (coalesce i 0);
               expense = js_number (coalesce x 0);
               pending = js_number (coalesce p 0)
           in Inr \<lparr>income = income, expense = expense, pending = pending,
                   balance = js_number (income - expense)\<rparr>)))))))"

text \<open>
  \<^verbatim>\<open>customerOps.getWithPending\<close>: the inner join of customers and transactions,
  restricted to pending transactions (\<^verbatim>\<open>t.status = 'pending'\<close>, in single
  quotes) of customers with \<^verbatim>\<open>aktif = 1\<close>, grouped by the customer's primary
  key, each group annotated with the \<^verbatim>\<open>SUM\<close> of its amounts, groups kept when
  that sum is positive, ordered by name. A group of an inner join holds at least
  one joined row, so its sum is never NULL. \<open>debts\<close> is the aggregation, one
  group per customer; an overflow in any group fails the whole query. The rows
  reach JavaScript with the sum as a number.
\<close>

definition pending_of :: "db \<Rightarrow> customer \<Rightarrow> transaction list" where
  "pending_of d c =
     filter (\<lambda>t. customer_id t = c_id c \<and> status t = Pending) (transactions d)"

fun debts :: "db \<Rightarrow> customer list \<Rightarrow> error + (customer \<times> int) list" where
  "debts d [] = Inr []"
| "debts d (c # cs) =
     (case sum_int64 0 (map jumlah (pending_of d c)) of
        None \<Rightarrow> Inl (SqliteError ''integer overflow'')
      | Some s \<Rightarrow>
          (case debts d cs of
             Inl e \<Rightarrow> Inl e
           | Inr rows \<Rightarrow> Inr ((c, s) # rows)))"

definition getWithPending :: "db \<Rightarrow> error + (customer \<times> int) list" where
  "getWithPending d =
     (case debts d (filter (\<lambda>c. aktif c = 1 \<and> pending_of d c \<noteq> []) (customers d)) of
        Inl e \<Rightarrow> Inl e
      | Inr groups \<Rightarrow>
          Inr (map (\<lambda>r. (fst r, js_number (snd r)))
                 (sort_key (\<lambda>r. nama (fst r)) (filter (\<lambda>r. snd r > 0) groups))))"

subsection \<open>Keys and constraints\<close>

type_synonym 'a result = "(error + 'a) \<times> db"

text \<open>
  An AUTOINCREMENT key is one more than the largest id the table holds or has
  ever held.
\<close>

definition next_rowid :: "nat \<Rightarrow> nat list \<Rightarrow> nat" where
  "next_rowid seq ids = Suc (fold max ids seq)"

definition user_exists :: "db \<Rightarrow> nat \<Rightarrow> bool" where
  "user_exists d u = (u \<in> set (map u_id (users d)))"

definition customer_exists :: "db \<Rightarrow> nat \<Rightarrow> bool" where
  "customer_exists d c = (c \<in> set (map c_id (customers d)))"

text \<open>A nullable foreign-key column is accepted when it is NULL or names a parent row.\<close>

definition fk_user :: "db \<Rightarrow> nat option \<Rightarrow> bool" where
  "fk_user d r = (case r of None \<Rightarrow> True | Some u \<Rightarrow> user_exists d u)"

definition fk_customer :: "db \<Rightarrow> nat option \<Rightarrow> bool" where
  "fk_customer d r = (case r of None \<Rightarrow> True | Some c \<Rightarrow> customer_exists d c)"

text \<open>JavaScript truthiness of an id (\<^verbatim>\<open>if (userId)\<close>, \<^verbatim>\<open>x || null\<close>): null and 0 are falsy.\<close>

definition truthy_id :: "nat option \<Rightarrow> bool" where
  "truthy_id r = (case r of None \<Rightarrow> False | Some u \<Rightarrow> u \<noteq> 0)"

definition or_null_id :: "nat option \<Rightarrow> nat option" where
  "or_null_id r = (if truthy_id r then r else None)"

definition or_null_text :: "string option \<Rightarrow> string option" where
  "or_null_text r = (case r of None \<Rightarrow> None | Some s \<Rightarrow> if s = [] then None else Some s)"

fun tipe_text :: "tipe \<Rightarrow> string" where
  "tipe_text Internet = ''internet''"
| "tipe_text Gas = ''gas''"

subsection \<open>userOps\<close>

definition userOps_getById :: "nat \<Rightarrow> db \<Rightarrow> user option" where
  "userOps_getById i d = find (\<lambda>u. u_id u = i) (users d)"

definition userOps_getByUsername :: "string \<Rightarrow> db \<Rightarrow> user option" where
  "userOps_getByUsername n d = find (\<lambda>u. username u = n) (users d)"

text \<open>
  \<^verbatim>\<open>userOps.logActivity\<close>: one INSERT into activity_logs, whose \<^verbatim>\<open>user_id\<close>
  references users.
\<close>

definition logActivity :: "nat option \<Rightarrow> string \<Rightarrow> string \<Rightarrow> db \<Rightarrow> unit result" where
  "logActivity userId act det d =
     (if fk_user d userId
      then (let rowid = next_rowid (seq_activity_logs d) (map a_id (activity_logs d))
            in (Inr (),
                d\<lparr>activity_logs := activity_logs d @
                     [\<lparr>a_id = rowid, user_id = userId, action = act, details = det,
                       ip_address = []\<rparr>],
                  seq_activity_logs := rowid\<rparr>))
      else (Inl (SqliteError ''FOREIGN KEY constraint failed''), d))"

text \<open>
  \<^verbatim>\<open>userOps.update\<close>: the UPDATE of the profile, the role and the active flag
  (\<^verbatim>\<open>data.aktif ? 1 : 0\<close>), and of the password hash when a non-empty password
  is given. \<open>hashSync\<close> is bcrypt's hash.
\<close>

record user_update =
  up_nama_lengkap :: string
  up_role :: role
  up_aktif :: bool
  up_password :: "string option"

definition userOps_update ::
  "(string \<Rightarrow> string) \<Rightarrow> nat \<Rightarrow> user_update \<Rightarrow> db \<Rightarrow> user option \<times> db" where
  "userOps_update hashSync i upd d =
     (let d' = d\<lparr>users := map (\<lambda>u. if u_id u = i
                      then u\<lparr>nama_lengkap := up_nama_lengkap upd, u_role := up_role upd,
                             u_aktif := (if up_aktif upd then 1 else 0),
                             password := (case or_null_text (up_password upd) of
                                            None \<Rightarrow> password u | Some p \<Rightarrow> hashSync p)\<rparr>
                      else u) (users d)\<rparr>
      in (userOps_getById i d', d'))"

subsection \<open>customerOps\<close>

definition customerOps_getById :: "nat \<Rightarrow> db \<Rightarrow> customer option" where
  "customerOps_getById i d = find (\<lambda>c. c_id c = i) (customers d)"

text \<open>
  \<^verbatim>\<open>DELETE FROM customers WHERE id = ?\<close> under \<^verbatim>\<open>foreign_keys = ON\<close>: the
  references from transactions and message_logs carry no ON DELETE action, so the
  statement fails while a child row names the customer.
\<close>

definition delete_customer :: "nat \<Rightarrow> db \<Rightarrow> unit result" where
  "delete_customer i d =
     (if i \<in> set (map customer_id (transactions d))
         \<or> Some i \<in> set (map m_customer_id (message_logs d))
      then (Inl (SqliteError ''FOREIGN KEY constraint failed''), d)
      else (Inr (), d\<lparr>customers := filter (\<lambda>c. c_id c \<noteq> i) (customers d)\<rparr>))"

definition customerOps_delete :: "nat \<Rightarrow> nat option \<Rightarrow> db \<Rightarrow> bool result" where
  "customerOps_delete i userId d =
     (case customerOps_getById i d of
        Some customer \<Rightarrow>
          (case delete_customer i d of
             (Inl e, d1) \<Rightarrow> (Inl e, d1)
           | (Inr _, d1) \<Rightarrow>
               if truthy_id userId
               then (case logActivity userId ''DELETE_CUSTOMER''
                            (''Hapus customer: '' @ nama customer) d1 of
                       (Inl e, d2) \<Rightarrow> (Inl e, d2)
                     | (Inr _, d2) \<Rightarrow> (Inr True, d2))
               else (Inr True, d1))
      | None \<Rightarrow> (Inr False, d))"

subsection \<open>transactionOps\<close>

text \<open>
  \<^verbatim>\<open>transactionOps.getById\<close> selects \<^verbatim>\<open>t.*, c.tipe as customer_tipe\<close> over a
  LEFT JOIN with customers. The row object has one \<^verbatim>\<open>customer_tipe\<close> key, and
  the later column wins: it holds the customer's current type, or null when no
  customer row matches. The result is the stored row paired with that value.
\<close>

definition transactionOps_getById :: "nat \<Rightarrow> db \<Rightarrow> (transaction \<times> string option) option" where
  "transactionOps_getById i d =
     (case find (\<lambda>t. t_id t = i) (transactions d) of
        None \<Rightarrow> None
      | Some t \<Rightarrow>
          Some (t, case find (\<lambda>c. c_id c = customer_id t) (customers d) of
                     None \<Rightarrow> None
                   | Some c \<Rightarrow> Some (tipe_text (tipe c))))"

text \<open>
  The INSERT into transactions: \<^verbatim>\<open>customer_tipe\<close> is NOT NULL, \<^verbatim>\<open>customer_id\<close>
  references customers and \<^verbatim>\<open>created_by\<close> references users.
\<close>

definition insert_transaction ::
  "nat \<Rightarrow> string \<Rightarrow> string option \<Rightarrow> string \<Rightarrow> int \<Rightarrow> jenis \<Rightarrow> status \<Rightarrow> string option
     \<Rightarrow> nat option \<Rightarrow> nat \<Rightarrow> db \<Rightarrow> nat result" where
  "insert_transaction cid cnama ctipe kat jml jns st desk uid now d =
     (case ctipe of
        None \<Rightarrow> (Inl (SqliteError ''NOT NULL constraint failed: transactions.customer_tipe''), d)
      | Some ct \<Rightarrow>
          if \<not> customer_exists d cid \<or> \<not> fk_user d uid
          then (Inl (SqliteError ''FOREIGN KEY constraint failed''), d)
          else (let rowid = next_rowid (seq_transactions d) (map t_id (transactions d))
                in (Inr rowid,
                    d\<lparr>transactions := transactions d @
                         [\<lparr>t_id = rowid, customer_id = cid, customer_nama = cnama,
                           customer_tipe = ct, kategori = kat, jumlah = jml, jenis = jns,
                           status = st, deskripsi = desk, created_by = uid,
                           created_at = now, updated_at = now\<rparr>],
                      seq_transactions := rowid\<rparr>)))"

text \<open>\<^verbatim>\<open>UPDATE transactions SET status = "lunas", updated_at = CURRENT_TIMESTAMP WHERE id = ?\<close>\<close>

definition set_lunas :: "nat \<Rightarrow> nat \<Rightarrow> transaction \<Rightarrow> transaction" where
  "set_lunas i now x = (if t_id x = i then x\<lparr>status := Lunas, updated_at := now\<rparr> else x)"

text \<open>
  \<^verbatim>\<open>transactionOps.markAsLunas\<close>. When the row is found the UPDATE is
  prepared first; its text sets the status to the word \<^verbatim>\<open>"lunas"\<close> in double
  quotes, while the INSERT after it writes \<^verbatim>\<open>'pemasukan'\<close> and \<^verbatim>\<open>'lunas'\<close>
  in single quotes. The two writes are separate statements: when the INSERT fails
  the UPDATE stays. \<open>formatIDR\<close> is the currency formatter of
  \<^verbatim>\<open>Intl.NumberFormat\<close>, used only in the audit text.
\<close>

definition markAsLunas ::
  "(int \<Rightarrow> string) \<Rightarrow> nat \<Rightarrow> nat option \<Rightarrow> nat \<Rightarrow> db \<Rightarrow> bool result" where
  "markAsLunas formatIDR i userId now d =
     (case transactionOps_getById i d of
        Some (t, joined_tipe) \<Rightarrow>
          (case double_quoted transactions_columns ''lunas'' of
             Some e \<Rightarrow> (Inl e, d)
           | None \<Rightarrow>
               (let d1 = d\<lparr>transactions := map (set_lunas i now) (transactions d)\<rparr>
                in case insert_transaction (customer_id t) (customer_nama t) joined_tipe
                          (kategori t) (jumlah t) Pemasukan Lunas
                          (Some ''Pembayaran otomatis'') userId now d1 of
                     (Inl e, d2) \<Rightarrow> (Inl e, d2)
                   | (Inr _, d2) \<Rightarrow>
                       if truthy_id userId
                       then (case logActivity userId ''PAYMENT''
                                    (''Pembayaran: '' @ formatIDR (jumlah t) @ '' dari ''
                                       @ customer_nama t) d2 of
                               (Inl e, d3) \<Rightarrow> (Inl e, d3)
                             | (Inr _, d3) \<Rightarrow> (Inr True, d3))
                       else (Inr True, d2)))
      | None \<Rightarrow> (Inr False, d))"


section \<open>Credentials and sessions (server.js)\<close>

text \<open>
  The jsonwebtoken library is outside the repository. A signed token is its claims,
  its issue and expiry times in seconds, and the key it was signed with;
  \<^verbatim>\<open>jwt.verify\<close> rejects a token that is not a JWT, one signed with another
  key, and one whose expiry time has been reached.
\<close>

record claims =
  jwt_id :: nat
  jwt_username :: string
  jwt_role :: role

record token =
  payload :: claims
  jwt_iat :: nat
  jwt_exp :: nat
  signed_with :: string

datatype bearer = Jwt token | Garbage string

datatype auth_header = NoHeader | OtherScheme string | Bearer bearer

definition jwt_sign :: "claims \<Rightarrow> string \<Rightarrow> nat \<Rightarrow> token" where
  "jwt_sign c secret now =
     \<lparr>payload = c, jwt_iat = now, jwt_exp = now + 24 * 60 * 60, signed_with = secret\<rparr>"

definition jwt_verify :: "bearer \<Rightarrow> string \<Rightarrow> nat \<Rightarrow> error + claims" where
  "jwt_verify b secret now =
     (case b of
        Garbage _ \<Rightarrow> Inl (Error ''jwt malformed'')
      | Jwt t \<Rightarrow>
          if signed_with t \<noteq> secret then Inl (Error ''invalid signature'')
          else if jwt_exp t \<le> now then Inl (Error ''jwt expired'')
          else Inr (payload t))"

record principal =
  p_id :: nat
  p_username :: string
  p_nama_lengkap :: string
  p_role :: role

definition principal_of :: "user \<Rightarrow> principal" where
  "principal_of u =
     \<lparr>p_id = u_id u, p_username = username u, p_nama_lengkap = nama_lengkap u,
      p_role = u_role u\<rparr>"

text \<open>A JSON reply: the HTTP status and the keys \<^verbatim>\<open>success\<close>, \<^verbatim>\<open>error\<close> and the payload.\<close>

record 'a response =
  http_status :: nat
  success :: bool
  error_msg :: "string option"
  body :: "'a option"

definition failure :: "nat \<Rightarrow> string \<Rightarrow> 'a response" where
  "failure code msg = \<lparr>http_status = code, success = False, error_msg = Some msg, body = None\<rparr>"

definition succeed :: "'a option \<Rightarrow> 'a response" where
  "succeed b = \<lparr>http_status = 200, success = True, error_msg = None, body = b\<rparr>"

text \<open>
  \<^verbatim>\<open>POST /api/auth/login\<close>. \<open>compareSync\<close> is bcrypt's comparison of a password
  with a stored hash. The handler has no try block: an exception of the audit
  INSERT reaches the framework's error handler, which answers 500.
\<close>

definition login ::
  "(string \<Rightarrow> string \<Rightarrow> bool) \<Rightarrow> string \<Rightarrow> nat \<Rightarrow> string \<Rightarrow> string \<Rightarrow> db
     \<Rightarrow> (token \<times> principal) response \<times> db" where
  "login compareSync secret now uname pw d =
     (case userOps_getByUsername uname d of
        None \<Rightarrow> (failure 401 ''Username tidak ditemukan'', d)
      | Some user \<Rightarrow>
          if u_aktif user = 0 then (failure 401 ''Akun tidak aktif'', d)
          else if \<not> compareSync pw (password user) then (failure 401 ''Password salah'', d)
          else (let tok = jwt_sign \<lparr>jwt_id = u_id user, jwt_username = username user,
                                     jwt_role = u_role user\<rparr> secret now
                in case logActivity (Some (u_id user)) ''LOGIN'' ''User login ke sistem'' d of
                     (Inl e, d') \<Rightarrow> (failure 500 (error_text e), d')
                   | (Inr _, d') \<Rightarrow> (succeed (Some (tok, principal_of user)), d')))"

text \<open>\<^verbatim>\<open>GET /api/auth/verify\<close>: checks the token, then reads the user row again.\<close>

definition auth_verify :: "string \<Rightarrow> nat \<Rightarrow> auth_header \<Rightarrow> db \<Rightarrow> principal response" where
  "auth_verify secret now h d =
     (case h of
        Bearer b \<Rightarrow>
          (case jwt_verify b secret now of
             Inl _ \<Rightarrow> failure 401 ''Token expired''
           | Inr decoded \<Rightarrow>
               (case userOps_getById (jwt_id decoded) d of
                  None \<Rightarrow> failure 401 ''User tidak valid''
                | Some user \<Rightarrow>
                    if u_aktif user = 0 then failure 401 ''User tidak valid''
                    else succeed (Some (principal_of user))))
      | _ \<Rightarrow> failure 401 ''Token tidak ditemukan'')"

text \<open>
  The middleware \<^verbatim>\<open>authenticateToken\<close> in front of every other route: it checks
  the token and hands the decoded claims on as \<^verbatim>\<open>req.user\<close>. It does not read
  the store.
\<close>

datatype gate = Next claims | Rejected "unit response"

definition authenticateToken :: "string \<Rightarrow> nat \<Rightarrow> auth_header \<Rightarrow> gate" where
  "authenticateToken secret now h =
     (case h of
        Bearer b \<Rightarrow>
          (case jwt_verify b secret now of
             Inl _ \<Rightarrow> Rejected (failure 401 ''Token tidak valid'')
           | Inr decoded \<Rightarrow> Next decoded)
      | _ \<Rightarrow> Rejected (failure 401 ''Token diperlukan''))"

section \<open>Real-time fan-out (server.js)\<close>

text \<open>
  An event is written to a response stream as one JSON object with a \<^verbatim>\<open>type\<close>
  and an optional \<^verbatim>\<open>data\<close>. The module state of whatsapp.js is whether a
  client object exists, the status string, and the calls made to the transport.
\<close>

datatype event_data = StatusData string nat | QrData string | Json string

datatype frame = Frame string "event_data option"

record whatsapp =
  client :: bool
  clientStatus :: string
  sendMessage_calls :: "(string \<times> string) list"

definition getStatus :: "nat \<Rightarrow> whatsapp \<Rightarrow> event_data" where
  "getStatus now w = StatusData (clientStatus w) now"

text \<open>
  \<open>clients\<close> is the Set of open response objects, each identified by a number, in
  insertion order; \<open>written\<close> is what has been written to each response so far.
\<close>

record server =
  clients :: "nat list"
  written :: "nat \<Rightarrow> frame list"
  wa :: whatsapp

definition res_write :: "nat \<Rightarrow> frame \<Rightarrow> server \<Rightarrow> server" where
  "res_write ch f s = s\<lparr>written := (written s)(ch := written s ch @ [f])\<rparr>"

definition clients_add :: "nat \<Rightarrow> nat list \<Rightarrow> nat list" where
  "clients_add ch cs = (if ch \<in> set cs then cs else cs @ [ch])"

definition broadcast :: "frame \<Rightarrow> server \<Rightarrow> server" where
  "broadcast f s = fold (\<lambda>ch. res_write ch f) (clients s) s"

text \<open>The handler of \<^verbatim>\<open>GET /api/events\<close> for the response \<open>ch\<close> at time \<open>now\<close>.\<close>

definition events_connect :: "nat \<Rightarrow> nat \<Rightarrow> server \<Rightarrow> server" where
  "events_connect ch now s =
     (let s1 = res_write ch (Frame ''connected'' None) s;
          s2 = s1\<lparr>clients := clients_add ch (clients s1)\<rparr>;
          waStatus = getStatus now (wa s2)
      in res_write ch (Frame ''wa_status'' (Some waStatus)) s2)"

definition events_close :: "nat \<Rightarrow> server \<Rightarrow> server" where
  "events_close ch s = s\<lparr>clients := removeAll ch (clients s)\<rparr>"

text \<open>
  \<^verbatim>\<open>broadcastStatus\<close> of whatsapp.js with the status callback that server.js
  installs at start-up.
\<close>

definition broadcastStatus :: "nat \<Rightarrow> server \<Rightarrow> server" where
  "broadcastStatus now s = broadcast (Frame ''wa_status'' (Some (getStatus now (wa s)))) s"

text \<open>
  The event loop runs one handler at a time to completion. A run of the server is
  a list of such steps: a connection to the event stream, the close of one, a
  broadcast from a route, and a status change of the gateway.
\<close>

datatype action = Connect nat nat | Close nat | Publish frame | StatusChange string nat

fun step :: "action \<Rightarrow> server \<Rightarrow> server" where
  "step (Connect ch now) s = events_connect ch now s"
| "step (Close ch) s = events_close ch s"
| "step (Publish f) s = broadcast f s"
| "step (StatusChange st now) s = broadcastStatus now (s\<lparr>wa := (wa s)\<lparr>clientStatus := st\<rparr>\<rparr>)"

definition run :: "action list \<Rightarrow> server \<Rightarrow> server" where
  "run as s = fold step as s"

definition server_init :: server where
  "server_init =
     \<lparr>clients = [], written = (\<lambda>_. []),
      wa = \<lparr>client = False, clientStatus = ''disconnected'', sendMessage_calls = []\<rparr>\<rparr>"

fun connects :: "action list \<Rightarrow> nat list" where
  "connects [] = []"
| "connects (Connect ch now # as) = ch # connects as"
| "connects (a # as) = connects as"

text \<open>
  What the specification promises a subscriber after its two initial payloads:
  the events published from then on, in order, until its connection closes.
\<close>

fun published_until_close :: "nat \<Rightarrow> action list \<Rightarrow> frame list" where
  "published_until_close ch [] = []"
| "published_until_close ch (Close c # as) = (if c = ch then [] else published_until_close ch as)"
| "published_until_close ch (Publish f # as) = f # published_until_close ch as"
| "published_until_close ch (StatusChange st now # as) =
     Frame ''wa_status'' (Some (StatusData st now)) # published_until_close ch as"
| "published_until_close ch (Connect c now # as) = published_until_close ch as"

text \<open>
  The gateway status after a run that started with the status \<open>st\<close>: that of the
  last status change, if there was one.
\<close>

fun last_status :: "action list \<Rightarrow> string \<Rightarrow> string" where
  "last_status [] st = st"
| "last_status (StatusChange s now # as) st = last_status as s"
| "last_status (a # as) st = last_status as st"

section \<open>Routes over the store (server.js)\<close>

text \<open>
  A route behind \<^verbatim>\<open>authenticateToken\<close> returns its reply, the events it
  broadcasts, and the store. An exception inside the handler's try block becomes
  the reply 500 with the exception's message.
\<close>

definition route_mark_lunas ::
  "(int \<Rightarrow> string) \<Rightarrow> string \<Rightarrow> nat \<Rightarrow> auth_header \<Rightarrow> nat \<Rightarrow> db
     \<Rightarrow> (unit response \<times> frame list) \<times> db" where
  "route_mark_lunas formatIDR secret now h i d =
     (case authenticateToken secret now h of
        Rejected r \<Rightarrow> ((r, []), d)
      | Next user \<Rightarrow>
          (case markAsLunas formatIDR i (Some (jwt_id user)) now d of
             (Inl e, d') \<Rightarrow> ((failure 500 (error_text e), []), d')
           | (Inr result, d') \<Rightarrow>
               if \<not> result then ((failure 404 ''Transaksi tidak ditemukan'', []), d')
               else ((succeed None, [Frame ''transaction_updated'' None]), d')))"

definition route_delete_customer ::
  "string \<Rightarrow> nat \<Rightarrow> auth_header \<Rightarrow> nat \<Rightarrow> db \<Rightarrow> (unit response \<times> frame list) \<times> db" where
  "route_delete_customer secret now h i d =
     (case authenticateToken secret now h of
        Rejected r \<Rightarrow> ((r, []), d)
      | Next user \<Rightarrow>
          (case customerOps_delete i (Some (jwt_id user)) d of
             (Inl e, d') \<Rightarrow> ((failure 500 (error_text e), []), d')
           | (Inr result, d') \<Rightarrow>
               if \<not> result then ((failure 404 ''Customer tidak ditemukan'', []), d')
               else ((succeed None, [Frame ''customer_updated'' None]), d')))"


text \<open>\<^verbatim>\<open>GET /api/customers/:id\<close>, a read behind the same middleware.\<close>

definition route_get_customer ::
  "string \<Rightarrow> nat \<Rightarrow> auth_header \<Rightarrow> nat \<Rightarrow> db \<Rightarrow> customer response" where
  "route_get_customer secret now h i d =
     (case authenticateToken secret now h of
        Rejected r \<Rightarrow>
          \<lparr>http_status = http_status r, success = success r, error_msg = error_msg r,
           body = None\<rparr>
      | Next user \<Rightarrow>
          (case customerOps_getById i d of
             None \<Rightarrow> failure 404 ''Customer tidak ditemukan''
           | Some customer \<Rightarrow> succeed (Some customer)))"

section \<open>Messaging gateway (whatsapp.js)\<close>

subsection \<open>messageOps.create\<close>

text \<open>
  The argument object of \<^verbatim>\<open>messageOps.create\<close>, and its INSERT into
  message_logs: \<^verbatim>\<open>phone\<close> is NOT NULL, \<^verbatim>\<open>customer_id\<close> references customers
  and \<^verbatim>\<open>sent_by\<close> references users. The optional values pass through
  \<^verbatim>\<open>|| null\<close>.
\<close>

record message_data =
  d_customer_id :: "nat option"
  d_customer_nama :: "string option"
  d_phone :: "string option"
  d_message_type :: string
  d_status :: log_status
  d_message_preview :: "string option"
  d_error_message :: "string option"
  d_sent_by :: "nat option"

definition messageOps_create :: "message_data \<Rightarrow> db \<Rightarrow> nat result" where
  "messageOps_create m d =
     (case d_phone m of
        None \<Rightarrow> (Inl (SqliteError ''NOT NULL constraint failed: message_logs.phone''), d)
      | Some ph \<Rightarrow>
          if \<not> fk_customer d (or_null_id (d_customer_id m))
             \<or> \<not> fk_user d (or_null_id (d_sent_by m))
          then (Inl (SqliteError ''FOREIGN KEY constraint failed''), d)
          else (let rowid = next_rowid (seq_message_logs d) (map m_id (message_logs d))
                in (Inr rowid,
                    d\<lparr>message_logs := message_logs d @
                         [\<lparr>m_id = rowid, m_customer_id = or_null_id (d_customer_id m),
                           m_customer_nama = or_null_text (d_customer_nama m), phone = ph,
                           message_type = d_message_type m, m_status = d_status m,
                           message_preview = or_null_text (d_message_preview m),
                           error_message = or_null_text (d_error_message m),
                           sent_by = or_null_id (d_sent_by m)\<rparr>],
                      seq_message_logs := rowid\<rparr>)))"

subsection \<open>sendBillingMessage\<close>

text \<open>
  The state the gateway works on is the store and the module state of whatsapp.js.
  The WhatsApp transport is outside the repository: \<open>deliver\<close> decides, from the
  calls made so far, the chat id and the text, whether \<^verbatim>\<open>client.sendMessage\<close>
  resolves (\<open>None\<close>) or rejects with an error message.
\<close>

record world =
  store :: db
  gateway :: whatsapp

type_synonym transport = "(string \<times> string) list \<Rightarrow> string \<Rightarrow> string \<Rightarrow> string option"

datatype send_result = SendOk string string | SendFailed string

definition digits_only :: "string \<Rightarrow> string" where
  "digits_only s = filter (\<lambda>c. c \<in> set ''0123456789'') s"

definition format_phone :: "string \<Rightarrow> string" where
  "format_phone p = (case p of c # rest \<Rightarrow> if c = CHR ''0'' then ''62'' @ rest else p | [] \<Rightarrow> p)"

text \<open>The try block of \<^verbatim>\<open>sendBillingMessage\<close>; \<open>Inl\<close> is the exception it throws.\<close>

definition try_send ::
  "transport \<Rightarrow> nat \<Rightarrow> string \<Rightarrow> nat option \<Rightarrow> world \<Rightarrow> (error + send_result) \<times> world" where
  "try_send deliver customerId message userId w =
     (if \<not> client (gateway w) \<or> clientStatus (gateway w) \<noteq> ''ready''
      then (Inl (Error ''WhatsApp client not ready''), w)
      else case customerOps_getById customerId (store w) of
             None \<Rightarrow> (Inl (Error ''Customer not found''), w)
           | Some customer \<Rightarrow>
               (let formattedPhone = format_phone (digits_only (whatsapp customer));
                    chatId = formattedPhone @ ''@c.us'';
                    calls = sendMessage_calls (gateway w);
                    w1 = w\<lparr>gateway := (gateway w)\<lparr>sendMessage_calls := calls @ [(chatId, message)]\<rparr>\<rparr>
                in case deliver calls chatId message of
                     Some msg \<Rightarrow> (Inl (Error msg), w1)
                   | None \<Rightarrow>
                       (case messageOps_create
                               \<lparr>d_customer_id = Some customerId,
                                d_customer_nama = Some (nama customer),
                                d_phone = Some formattedPhone, d_message_type = ''billing'',
                                d_status = Success,
                                d_message_preview = Some (take 200 message),
                                d_error_message = None, d_sent_by = userId\<rparr> (store w1) of
                          (Inl e, d') \<Rightarrow> (Inl e, w1\<lparr>store := d'\<rparr>)
                        | (Inr _, d') \<Rightarrow>
                            (Inr (SendOk (nama customer) formattedPhone), w1\<lparr>store := d'\<rparr>))))"

text \<open>
  The identifiers bound where the catch clause of \<^verbatim>\<open>sendBillingMessage\<close> is
  evaluated: the catch parameter, the function's parameters, the module-level
  bindings of whatsapp.js and the parameters of the module wrapper. The constant
  \<^verbatim>\<open>customer\<close> is declared inside the try block, whose scope ends with that
  block, and the global object has no property of that name.
\<close>

definition catch_scope :: "string list" where
  "catch_scope =
     [''error'', ''customerId'', ''message'', ''userId'',
      ''Client'', ''LocalAuth'', ''qrcode'', ''customerOps'', ''messageOps'',
      ''client'', ''clientStatus'', ''statusCallback'', ''qrCallback'', ''eventHandlers'',
      ''generateQRCodeImage'', ''broadcastStatus'', ''broadcastQR'', ''setCallbacks'',
      ''initClient'', ''createClient'', ''startService'', ''stopService'', ''getStatus'',
      ''formatMessage'', ''sendBillingMessage'', ''broadcastBillingMessage'',
      ''getMessageLogs'', ''getMessageStats'',
      ''exports'', ''require'', ''module'', ''__filename'', ''__dirname'']"

text \<open>
  The catch clause. Building the argument of \<^verbatim>\<open>messageOps.create\<close> evaluates
  \<^verbatim>\<open>customer?.nama\<close>; an identifier that resolves to no binding throws a
  ReferenceError before the call is made, and optional chaining does not guard
  that. The object it would pass has \<^verbatim>\<open>phone: null\<close>.
\<close>

definition catch_send ::
  "error \<Rightarrow> nat \<Rightarrow> string \<Rightarrow> nat option \<Rightarrow> world \<Rightarrow> (error + send_result) \<times> world" where
  "catch_send err customerId message userId w =
     (if ''customer'' \<in> set catch_scope
      then (case messageOps_create
                   \<lparr>d_customer_id = Some customerId, d_customer_nama = None,
                    d_phone = None, d_message_type = ''billing'', d_status = Failed,
                    d_message_preview = Some (take 200 message),
                    d_error_message = Some (error_text err), d_sent_by = userId\<rparr> (store w) of
              (Inl e, d') \<Rightarrow> (Inl e, w\<lparr>store := d'\<rparr>)
            | (Inr _, d') \<Rightarrow> (Inr (SendFailed (error_text err)), w\<lparr>store := d'\<rparr>))
      else (Inl (ReferenceError ''customer is not defined''), w))"

definition sendBillingMessage ::
  "transport \<Rightarrow> nat \<Rightarrow> string \<Rightarrow> nat option \<Rightarrow> world \<Rightarrow> (error + send_result) \<times> world" where
  "sendBillingMessage deliver customerId message userId w =
     (case try_send deliver customerId message userId w of
        (Inr r, w') \<Rightarrow> (Inr r, w')
      | (Inl err, w') \<Rightarrow> catch_send err customerId message userId w')"

subsection \<open>broadcastBillingMessage\<close>

record detail =
  det_customer :: string
  det_status :: log_status
  det_error :: "string option"

record results =
  r_total :: nat
  r_success :: nat
  r_failed :: nat
  r_details :: "detail list"

text \<open>
  The for loop over the debtors. \<open>formatMessage\<close> stands for the function of that
  name, whose text depends on the clock and the locale. An exception of the
  awaited \<^verbatim>\<open>sendBillingMessage\<close> leaves the loop.
\<close>

fun broadcast_loop ::
  "transport \<Rightarrow> (string \<Rightarrow> customer \<Rightarrow> int \<Rightarrow> string) \<Rightarrow> string \<Rightarrow> nat option
     \<Rightarrow> (customer \<times> int) list \<Rightarrow> results \<Rightarrow> world \<Rightarrow> (error + results) \<times> world" where
  "broadcast_loop deliver formatMessage template userId [] res w = (Inr res, w)"
| "broadcast_loop deliver formatMessage template userId (row # rest) res w =
     (let customer = fst row;
          res1 = res\<lparr>r_total := r_total res + 1\<rparr>;
          message = formatMessage template customer (snd row)
      in case sendBillingMessage deliver (c_id customer) message userId w of
           (Inl e, w') \<Rightarrow> (Inl e, w')
         | (Inr sendResult, w') \<Rightarrow>
             (let res2 = (case sendResult of
                            SendOk _ _ \<Rightarrow> res1\<lparr>r_success := r_success res1 + 1\<rparr>
                          | SendFailed _ \<Rightarrow> res1\<lparr>r_failed := r_failed res1 + 1\<rparr>);
                  res3 = res2\<lparr>r_details := r_details res2 @
                           [case sendResult of
                              SendOk _ _ \<Rightarrow>
                                \<lparr>det_customer = nama customer, det_status = Success,
                                 det_error = None\<rparr>
                            | SendFailed msg \<Rightarrow>
                                \<lparr>det_customer = nama customer, det_status = Failed,
                                 det_error = or_null_text (Some msg)\<rparr>]\<rparr>
              in broadcast_loop deliver formatMessage template userId rest res3 w'))"

text \<open>
  \<^verbatim>\<open>broadcastBillingMessage\<close>: the summary when the loop ends, or the message
  of the exception its try block caught, from the debtor query or from the loop.
\<close>

datatype broadcast_reply = BroadcastCompleted results | BroadcastFailed string

definition broadcastBillingMessage ::
  "transport \<Rightarrow> (string \<Rightarrow> customer \<Rightarrow> int \<Rightarrow> string) \<Rightarrow> string \<Rightarrow> nat option \<Rightarrow> world
     \<Rightarrow> broadcast_reply \<times> world" where
  "broadcastBillingMessage deliver formatMessage template userId w =
     (case getWithPending (store w) of
        Inl e \<Rightarrow> (BroadcastFailed (error_text e), w)
      | Inr debtors \<Rightarrow>
          (case broadcast_loop deliver formatMessage template userId debtors
                  \<lparr>r_total = 0, r_success = 0, r_failed = 0, r_details = []\<rparr> w of
             (Inr res, w') \<Rightarrow> (BroadcastCompleted res, w')
           | (Inl e, w') \<Rightarrow> (BroadcastFailed (error_text e), w')))"

section \<open>Sample data\<close>

definition ex_admin :: user where
  "ex_admin = \<lparr>u_id = 1, username = ''admin'', password = ''h:admin123'',
     nama_lengkap = ''Administrator'', u_role = Admin, u_aktif = 1\<rparr>"

definition ex_staff :: user where
  "ex_staff = \<lparr>u_id = 2, username = ''staff'', password = ''h:staff123'',
     nama_lengkap = ''Staff Kasir'', u_role = Staff, u_aktif = 1\<rparr>"

definition ex_hashSync :: "string \<Rightarrow> string" where
  "ex_hashSync pw = ''h:'' @ pw"

definition ex_compareSync :: "string \<Rightarrow> string \<Rightarrow> bool" where
  "ex_compareSync pw h = (h = ex_hashSync pw)"

definition ex_customer :: "nat \<Rightarrow> string \<Rightarrow> string \<Rightarrow> customer" where
  "ex_customer i n ph = \<lparr>c_id = i, nama = n, tipe = Internet, whatsapp = ph,
     username_pppoe = None, password_pppoe = None, alamat = None, aktif = 1,
     c_created_by = Some 1\<rparr>"

definition ex_bill :: "nat \<Rightarrow> nat \<Rightarrow> string \<Rightarrow> int \<Rightarrow> status \<Rightarrow> transaction" where
  "ex_bill i c n a st = \<lparr>t_id = i, customer_id = c, customer_nama = n,
     customer_tipe = ''internet'', kategori = ''Internet'', jumlah = a, jenis = Pemasukan,
     status = st, deskripsi = None, created_by = Some 1, created_at = 100, updated_at = 100\<rparr>"

definition ex_db :: db where
  "ex_db = \<lparr>users = [ex_admin, ex_staff],
     customers = [ex_customer 1 ''Ani'' ''0811'', ex_customer 2 ''Budi'' ''0812'',
                  ex_customer 3 ''Cici'' ''0813''],
     transactions = [ex_bill 1 1 ''Ani'' 150000 Pending, ex_bill 2 2 ''Budi'' 150000 Pending,
                     ex_bill 3 3 ''Cici'' 22000 Pending],
     message_logs = [], activity_logs = [],
     seq_transactions = 3, seq_message_logs = 0, seq_activity_logs = 0\<rparr>"

definition ex_formatIDR :: "int \<Rightarrow> string" where
  "ex_formatIDR n = ''Rp''"

definition ex_formatMessage :: "string \<Rightarrow> customer \<Rightarrow> int \<Rightarrow> string" where
  "ex_formatMessage template c amount = template @ '' '' @ nama c"

definition ex_ready :: whatsapp where
  "ex_ready = \<lparr>client = True, clientStatus = ''ready'', sendMessage_calls = []\<rparr>"

text \<open>A transport that rejects the second call made to it and accepts every other.\<close>

definition ex_second_fails :: transport where
  "ex_second_fails calls chatId message =
     (if length calls = 1 then Some ''Evaluation failed'' else None)"

definition ex_secret :: string where
  "ex_secret = ''pppoe_billing_secret_key_2024''"


text \<open>
  The token the staff user gets by logging in at time 1000, and the store after
  that login and a later update of the same user that clears the active flag.
\<close>

definition ex_staff_token :: token where
  "ex_staff_token =
     jwt_sign \<lparr>jwt_id = 2, jwt_username = ''staff'', jwt_role = Staff\<rparr> ex_secret 1000"

definition ex_db_deactivated :: db where
  "ex_db_deactivated =
     snd (userOps_update ex_hashSync 2
            \<lparr>up_nama_lengkap = ''Staff Kasir'', up_role = Staff, up_aktif = False,
             up_password = None\<rparr>
            (snd (login ex_compareSync ex_secret 1000 ''staff'' ''staff123'' ex_db)))"

definition ex_world :: world where
  "ex_world = \<lparr>store = ex_db, gateway = ex_ready\<rparr>"

definition ex_transport_ok :: transport where
  "ex_transport_ok calls chatId message = None"

definition ex_transport_down :: transport where
  "ex_transport_down calls chatId message = Some ''Evaluation failed''"


section \<open>List lookups\<close>


section \<open>Deleting a customer\<close>

lemma delete_customer_referenced:
  "i \<in> set (map customer_id (transactions d)) \<Longrightarrow>
     delete_customer i d = (Inl (SqliteError ''FOREIGN KEY constraint failed''), d)"
  by (simp add: delete_customer_def)

text \<open>
  C10. While a transaction references a stored customer, \<open>customerOps_delete\<close>
  throws the foreign-key error and returns the store as it was, so the customer
  and its transactions stay; the route answers 500 with that message and
  broadcasts nothing. Whenever a call does remove a stored customer, no
  transaction referenced it.
\<close>

theorem customer_delete_restricted:
  "(\<forall>c. customerOps_getById i d = Some c \<and> i \<in> set (map customer_id (transactions d)) \<longrightarrow>
       customerOps_delete i userId d = (Inl (SqliteError ''FOREIGN KEY constraint failed''), d)
     \<and> (\<forall>user. authenticateToken secret now h = Next user \<and> userId = Some (jwt_id user) \<longrightarrow>
           route_delete_customer secret now h i d =
             ((failure 500 ''FOREIGN KEY constraint failed'', []), d)))
   \<and> (\<forall>c. customerOps_getById i d = Some c
           \<and> customerOps_getById i (snd (customerOps_delete i userId d)) = None \<longrightarrow>
         i \<notin> set (map customer_id (transactions d)))"
proof (intro conjI allI impI; (elim conjE)?)
  fix c
  assume c: "customerOps_getById i d = Some c"
     and r: "i \<in> set (map customer_id (transactions d))"
  show thrown: "customerOps_delete i userId d =
      (Inl (SqliteError ''FOREIGN KEY constraint failed''), d)"
    by (simp add: customerOps_delete_def c delete_customer_referenced [OF r])
  fix user
  assume "authenticateToken secret now h = Next user" and "userId = Some (jwt_id user)"
  with thrown show "route_delete_customer secret now h i d =
             ((failure 500 ''FOREIGN KEY constraint failed'', []), d)"
    by (simp add: route_delete_customer_def)
next
  fix c
  assume c: "customerOps_getById i d = Some c"
     and gone: "customerOps_getById i (snd (customerOps_delete i userId d)) = None"
  show "i \<notin> set (map customer_id (transactions d))"
  proof
    assume r: "i \<in> set (map customer_id (transactions d))"
    have "customerOps_delete i userId d =
      (Inl (SqliteError ''FOREIGN KEY constraint failed''), d)"
      by (simp add: customerOps_delete_def c delete_customer_referenced [OF r])
    with gone c show False by simp
  qed
qed

theorem customer_delete_restricted_witness:
  "customerOps_getById 2 ex_db = Some (ex_customer 2 ''Budi'' ''0812'')
   \<and> 2 \<in> set (map customer_id (transactions ex_db))
   \<and> authenticateToken ex_secret 500
        (Bearer (Jwt (jwt_sign \<lparr>jwt_id = 1, jwt_username = ''admin'', jwt_role = Admin\<rparr> ex_secret 400)))
       = Next \<lparr>jwt_id = 1, jwt_username = ''admin'', jwt_role = Admin\<rparr>
   \<and> customerOps_delete 2 (Some 1) ex_db =
       (Inl (SqliteError ''FOREIGN KEY constraint failed''), ex_db)
   \<and> route_delete_customer ex_secret 500
        (Bearer (Jwt (jwt_sign \<lparr>jwt_id = 1, jwt_username = ''admin'', jwt_role = Admin\<rparr> ex_secret 400)))
        2 ex_db = ((failure 500 ''FOREIGN KEY constraint failed'', []), ex_db)
   \<and> customerOps_getById 2 (ex_db\<lparr>transactions := []\<rparr>) = Some (ex_customer 2 ''Budi'' ''0812'')
   \<and> customerOps_getById 2 (snd (customerOps_delete 2 (Some 1) (ex_db\<lparr>transactions := []\<rparr>))) = None
   \<and> 2 \<notin> set (map customer_id (transactions (ex_db\<lparr>transactions := []\<rparr>)))"
proof -
  let ?h = "Bearer (Jwt (jwt_sign \<lparr>jwt_id = 1, jwt_username = ''admin'', jwt_role = Admin\<rparr> ex_secret 400))"
  let ?u = "\<lparr>jwt_id = 1, jwt_username = ''admin'', jwt_role = Admin\<rparr>"
  let ?e = "ex_db\<lparr>transactions := []\<rparr>"
  have c: "customerOps_getById 2 ex_db = Some (ex_customer 2 ''Budi'' ''0812'')"
    by (simp add: customerOps_getById_def ex_db_def ex_customer_def)
  have r: "2 \<in> set (map customer_id (transactions ex_db))"
    by (simp add: ex_db_def ex_bill_def)
  have a: "authenticateToken ex_secret 500 ?h = Next ?u"
    by (simp add: authenticateToken_def jwt_verify_def jwt_sign_def)
  have id: "Some 1 = Some (jwt_id ?u)" by simp
  have c': "customerOps_getById 2 ?e = Some (ex_customer 2 ''Budi'' ''0812'')"
    by (simp add: customerOps_getById_def ex_db_def ex_customer_def)
  have gone: "customerOps_getById 2 (snd (customerOps_delete 2 (Some 1) ?e)) = None"
    by (simp add: customerOps_delete_def customerOps_getById_def delete_customer_def
        logActivity_def truthy_id_def fk_user_def user_exists_def next_rowid_def
        ex_db_def ex_customer_def ex_admin_def ex_staff_def Let_def)
  note full = customer_delete_restricted [of 2 ex_db "Some 1" ex_secret 500 ?h]
  note empty = customer_delete_restricted [of 2 ?e "Some 1" ex_secret 500 ?h]
  from full c r have r1: "customerOps_delete 2 (Some 1) ex_db =
       (Inl (SqliteError ''FOREIGN KEY constraint failed''), ex_db)"
    by blast
  from full c r a id have r2: "route_delete_customer ex_secret 500 ?h 2 ex_db =
       ((failure 500 ''FOREIGN KEY constraint failed'', []), ex_db)"
    by blast
  from empty c' gone have r3: "2 \<notin> set (map customer_id (transactions ?e))"
    by blast
  from c r a r1 r2 c' gone r3 show ?thesis by blast
qed

section \<open>Login failures\<close>

text \<open>
  C4 as stated fails: with the seeded users, a login under an unknown handle and a
  login under a known handle with a wrong password get different replies.
\<close>

theorem login_causes_distinguishable:
  "userOps_getByUsername ''bob'' ex_db = None
   \<and> userOps_getByUsername ''admin'' ex_db = Some ex_admin
   \<and> \<not> ex_compareSync ''wrong'' (password ex_admin)
   \<and> fst (login ex_compareSync ex_secret 0 ''bob'' ''wrong'' ex_db) =
       failure 401 ''Username tidak ditemukan''
   \<and> fst (login ex_compareSync ex_secret 0 ''admin'' ''wrong'' ex_db) =
       failure 401 ''Password salah''
   \<and> fst (login ex_compareSync ex_secret 0 ''bob'' ''wrong'' ex_db)
       \<noteq> fst (login ex_compareSync ex_secret 0 ''admin'' ''wrong'' ex_db)"
  by (simp add: login_def userOps_getByUsername_def ex_db_def ex_admin_def ex_staff_def
      ex_compareSync_def ex_hashSync_def failure_def)

text \<open>
  C4 amended. A login that fails because the handle is unknown and a login that
  fails because the password does not match both get status 401 with
  \<open>success = False\<close> and no token, and leave the store as it was. The error
  text differs: ``Username tidak ditemukan'' for an unknown handle, ``Password
  salah'' for a wrong password of an active user, ``Akun tidak aktif'' when the
  user is inactive.
\<close>

theorem login_failure_replies:
  "(userOps_getByUsername uname d = None \<longrightarrow>
      login cmp secret now uname pw d = (failure 401 ''Username tidak ditemukan'', d))
   \<and> (\<forall>user. userOps_getByUsername uname d = Some user \<and> \<not> cmp pw (password user) \<longrightarrow>
      login cmp secret now uname pw d =
        (failure 401 (if u_aktif user = 0 then ''Akun tidak aktif'' else ''Password salah''), d))
   \<and> (userOps_getByUsername uname d = None
        \<or> (\<exists>user. userOps_getByUsername uname d = Some user \<and> \<not> cmp pw (password user)) \<longrightarrow>
      http_status (fst (login cmp secret now uname pw d)) = 401
      \<and> \<not> success (fst (login cmp secret now uname pw d))
      \<and> body (fst (login cmp secret now uname pw d)) = None
      \<and> snd (login cmp secret now uname pw d) = d)"
proof -
  have unknown: "login cmp secret now uname pw d = (failure 401 ''Username tidak ditemukan'', d)"
    if "userOps_getByUsername uname d = None"
    using that by (simp add: login_def)
  have mismatch: "login cmp secret now uname pw d =
      (failure 401 (if u_aktif user = 0 then ''Akun tidak aktif'' else ''Password salah''), d)"
    if "userOps_getByUsername uname d = Some user" and "\<not> cmp pw (password user)" for user
    using that by (simp add: login_def)
  have shape: "http_status (fst (login cmp secret now uname pw d)) = 401
      \<and> \<not> success (fst (login cmp secret now uname pw d))
      \<and> body (fst (login cmp secret now uname pw d)) = None
      \<and> snd (login cmp secret now uname pw d) = d"
    if "userOps_getByUsername uname d = None
        \<or> (\<exists>user. userOps_getByUsername uname d = Some user \<and> \<not> cmp pw (password user))"
    using that
  proof
    assume "userOps_getByUsername uname d = None"
    from unknown [OF this] show ?thesis by (simp add: failure_def)
  next
    assume "\<exists>user. userOps_getByUsername uname d = Some user \<and> \<not> cmp pw (password user)"
    then obtain user where "userOps_getByUsername uname d = Some user" "\<not> cmp pw (password user)"
      by blast
    from mismatch [OF this] show ?thesis by (simp add: failure_def)
  qed
  from unknown mismatch shape show ?thesis by blast
qed

theorem login_failure_replies_witness:
  "userOps_getByUsername ''bob'' ex_db = None
   \<and> userOps_getByUsername ''admin'' ex_db = Some ex_admin
   \<and> \<not> ex_compareSync ''wrong'' (password ex_admin)
   \<and> login ex_compareSync ex_secret 0 ''bob'' ''wrong'' ex_db =
       (failure 401 ''Username tidak ditemukan'', ex_db)
   \<and> login ex_compareSync ex_secret 0 ''admin'' ''wrong'' ex_db =
       (failure 401 ''Password salah'', ex_db)
   \<and> http_status (fst (login ex_compareSync ex_secret 0 ''bob'' ''wrong'' ex_db)) = 401
   \<and> http_status (fst (login ex_compareSync ex_secret 0 ''admin'' ''wrong'' ex_db)) = 401"
proof -
  have b: "userOps_getByUsername ''bob'' ex_db = None"
    by (simp add: userOps_getByUsername_def ex_db_def ex_admin_def ex_staff_def)
  have a: "userOps_getByUsername ''admin'' ex_db = Some ex_admin"
    by (simp add: userOps_getByUsername_def ex_db_def ex_admin_def)
  have m: "\<not> ex_compareSync ''wrong'' (password ex_admin)"
    by (simp add: ex_compareSync_def ex_hashSync_def ex_admin_def)
  have act: "u_aktif ex_admin \<noteq> 0"
    by (simp add: ex_admin_def)
  note wb = login_failure_replies [of "''bob''" ex_db ex_compareSync ex_secret 0 "''wrong''"]
  note wa = login_failure_replies [of "''admin''" ex_db ex_compareSync ex_secret 0 "''wrong''"]
  from wb b have r1: "login ex_compareSync ex_secret 0 ''bob'' ''wrong'' ex_db =
       (failure 401 ''Username tidak ditemukan'', ex_db)"
    by blast
  from wa a m have "login ex_compareSync ex_secret 0 ''admin'' ''wrong'' ex_db =
       (failure 401 (if u_aktif ex_admin = 0 then ''Akun tidak aktif'' else ''Password salah''), ex_db)"
    by blast
  with act have r2: "login ex_compareSync ex_secret 0 ''admin'' ''wrong'' ex_db =
       (failure 401 ''Password salah'', ex_db)"
    by simp
  from wb b have r3: "http_status (fst (login ex_compareSync ex_secret 0 ''bob'' ''wrong'' ex_db)) = 401"
    by blast
  from wa a m have r4: "http_status (fst (login ex_compareSync ex_secret 0 ''admin'' ''wrong'' ex_db)) = 401"
    by blast
  from b a m r1 r2 r3 r4 show ?thesis by blast
qed

section \<open>Sending a billing message\<close>

lemma customer_not_in_catch_scope: "''customer'' \<notin> set catch_scope"
  by (simp add: catch_scope_def)

lemma catch_send_throws:
  "catch_send err customerId message userId w =
     (Inl (ReferenceError ''customer is not defined''), w)"
  by (simp add: catch_send_def customer_not_in_catch_scope)

text \<open>
  Were \<^verbatim>\<open>customer\<close> bound in the catch clause, the INSERT of the failure row
  would still be refused: the row has no phone and the column is NOT NULL.
\<close>

lemma messageOps_create_null_phone:
  "d_phone m = None \<Longrightarrow>
     messageOps_create m d =
       (Inl (SqliteError ''NOT NULL constraint failed: message_logs.phone''), d)"
  by (simp add: messageOps_create_def)

lemma try_send_failure_keeps_logs:
  assumes "fst (try_send deliver customerId message userId w) = Inl e"
  shows "message_logs (store (snd (try_send deliver customerId message userId w))) =
           message_logs (store w)"
  using assms
  by (auto simp: try_send_def messageOps_create_def Let_def
      split: option.splits if_splits prod.splits sum.splits)

text \<open>
  Every call whose try block throws ends in the ReferenceError of the catch
  clause and writes no row to message_logs; no call returns a failure result.
\<close>

lemma sendBillingMessage_failure:
  assumes "fst (try_send deliver customerId message userId w) = Inl e"
  shows "fst (sendBillingMessage deliver customerId message userId w) =
           Inl (ReferenceError ''customer is not defined'')"
    and "message_logs (store (snd (sendBillingMessage deliver customerId message userId w))) =
           message_logs (store w)"
proof -
  obtain w' where t: "try_send deliver customerId message userId w = (Inl e, w')"
    using assms by (metis prod.collapse)
  then show "fst (sendBillingMessage deliver customerId message userId w) =
           Inl (ReferenceError ''customer is not defined'')"
    by (simp add: sendBillingMessage_def catch_send_throws)
  from try_send_failure_keeps_logs [OF assms] t
  show "message_logs (store (snd (sendBillingMessage deliver customerId message userId w))) =
           message_logs (store w)"
    by (simp add: sendBillingMessage_def catch_send_throws)
qed

lemma sendBillingMessage_never_reports_failure:
  "fst (sendBillingMessage deliver customerId message userId w) \<noteq> Inr (SendFailed m)"
proof (cases "try_send deliver customerId message userId w")
  case (Pair r w')
  show ?thesis
  proof (cases r)
    case (Inl e)
    with Pair show ?thesis by (simp add: sendBillingMessage_def catch_send_throws)
  next
    case (Inr s)
    with Pair have "s \<noteq> SendFailed m"
      by (auto simp: try_send_def Let_def split: option.splits if_splits prod.splits sum.splits)
    with Pair Inr show ?thesis by (simp add: sendBillingMessage_def)
  qed
qed

text \<open>
  C3 at three concrete inputs, one for each cause of failure: the gateway is not
  ready, the customer id is unknown, the transport rejects the send. In each the
  call ends in the exception ``customer is not defined'' instead of a failure
  result, and message_logs, empty before, is empty afterwards.
\<close>

theorem sendBillingMessage_failure_unlogged:
  "sendBillingMessage ex_transport_ok 1 ''Tagihan'' (Some 1)
       (ex_world\<lparr>gateway := ex_ready\<lparr>clientStatus := ''disconnected''\<rparr>\<rparr>) =
     (Inl (ReferenceError ''customer is not defined''),
      ex_world\<lparr>gateway := ex_ready\<lparr>clientStatus := ''disconnected''\<rparr>\<rparr>)
   \<and> sendBillingMessage ex_transport_ok 9 ''Tagihan'' (Some 1) ex_world =
     (Inl (ReferenceError ''customer is not defined''), ex_world)
   \<and> sendBillingMessage ex_transport_down 1 ''Tagihan'' (Some 1) ex_world =
     (Inl (ReferenceError ''customer is not defined''),
      ex_world\<lparr>gateway := ex_ready\<lparr>sendMessage_calls := [(''62811@c.us'', ''Tagihan'')]\<rparr>\<rparr>)
   \<and> message_logs (store ex_world) = []"
proof -
  have g: "customerOps_getById 1 ex_db = Some (ex_customer 1 ''Ani'' ''0811'')"
    by (simp add: customerOps_getById_def ex_db_def ex_customer_def)
  from g have g': "customerOps_getById (Suc 0) ex_db = Some (ex_customer 1 ''Ani'' ''0811'')"
    by simp
  have n: "customerOps_getById 9 ex_db = None"
    by (simp add: customerOps_getById_def ex_db_def ex_customer_def)
  have p: "format_phone (digits_only (whatsapp (ex_customer i n ''0811''))) = ''62811''" for i n
    by (simp add: format_phone_def digits_only_def ex_customer_def)
  have c1: "sendBillingMessage ex_transport_ok 1 ''Tagihan'' (Some 1)
       (ex_world\<lparr>gateway := ex_ready\<lparr>clientStatus := ''disconnected''\<rparr>\<rparr>) =
     (Inl (ReferenceError ''customer is not defined''),
      ex_world\<lparr>gateway := ex_ready\<lparr>clientStatus := ''disconnected''\<rparr>\<rparr>)"
    by (simp add: sendBillingMessage_def try_send_def catch_send_throws)
  have c2: "sendBillingMessage ex_transport_ok 9 ''Tagihan'' (Some 1) ex_world =
     (Inl (ReferenceError ''customer is not defined''), ex_world)"
    by (simp add: sendBillingMessage_def try_send_def catch_send_throws ex_world_def
        ex_ready_def n)
  have c3: "sendBillingMessage ex_transport_down 1 ''Tagihan'' (Some 1) ex_world =
     (Inl (ReferenceError ''customer is not defined''),
      ex_world\<lparr>gateway := ex_ready\<lparr>sendMessage_calls := [(''62811@c.us'', ''Tagihan'')]\<rparr>\<rparr>)"
    by (simp add: sendBillingMessage_def try_send_def catch_send_throws ex_world_def
        ex_ready_def g' p ex_transport_down_def Let_def)
  have c4: "message_logs (store ex_world) = []"
    by (simp add: ex_world_def ex_db_def)
  from c1 c2 c3 c4 show ?thesis by blast
qed

section \<open>Aggregate queries\<close>

lemma double_quoted_no_column:
  "w \<notin> set columns \<Longrightarrow>
     double_quoted columns w =
       Some (SqliteError (''no such column: '' @ [CHR 0x22] @ w @ [CHR 0x22]
               @ '' - should this be a string literal in single-quotes?''))"
  by (simp add: double_quoted_def SQLITE_DQS_def)

lemma words_are_no_columns:
  "''lunas'' \<notin> set transactions_columns"
  "''pemasukan'' \<notin> set transactions_columns"
  "''pengeluaran'' \<notin> set transactions_columns"
  "''pending'' \<notin> set transactions_columns"
  by (simp_all add: transactions_columns_def)

text \<open>
  C9 on the code. The first query of \<open>getStats\<close> compares \<^verbatim>\<open>jenis\<close> with the
  double-quoted word \<^verbatim>\<open>"pemasukan"\<close>, which names no column, so preparing it
  throws: on every store, the one without transactions included, \<open>getStats\<close>
  ends in that exception and returns no totals.
\<close>

theorem getStats_throws:
  "getStats d =
     Inl (SqliteError (''no such column: '' @ [CHR 0x22] @ ''pemasukan'' @ [CHR 0x22]
            @ '' - should this be a string literal in single-quotes?''))
   \<and> getStats (d\<lparr>transactions := []\<rparr>)
       \<noteq> Inr \<lparr>income = 0, expense = 0, pending = 0, balance = 0\<rparr>"
  by (simp add: getStats_def double_quoted_no_column [OF words_are_no_columns(2)])

section \<open>Customers with an outstanding balance\<close>








section \<open>Settling a transaction\<close>

text \<open>
  For every stored id the UPDATE of \<open>markAsLunas\<close> fails to compile, before
  anything is written; for an id that no transaction has, the function returns
  false without preparing it.
\<close>

lemma markAsLunas_stored_throws:
  "find (\<lambda>x. t_id x = i) (transactions d) = Some t \<Longrightarrow>
     markAsLunas formatIDR i userId now d =
       (Inl (SqliteError (''no such column: '' @ [CHR 0x22] @ ''lunas'' @ [CHR 0x22]
               @ '' - should this be a string literal in single-quotes?'')), d)"
  by (simp add: markAsLunas_def transactionOps_getById_def
      double_quoted_no_column [OF words_are_no_columns(1)])

lemma markAsLunas_missing:
  "find (\<lambda>x. t_id x = i) (transactions d) = None \<Longrightarrow>
     markAsLunas formatIDR i userId now d = (Inr False, d)"
  by (simp add: markAsLunas_def transactionOps_getById_def)

lemma route_mark_lunas_stored:
  "authenticateToken secret now h = Next user \<Longrightarrow>
   find (\<lambda>x. t_id x = i) (transactions d) = Some t \<Longrightarrow>
     route_mark_lunas formatIDR secret now h i d =
       ((failure 500 (''no such column: '' @ [CHR 0x22] @ ''lunas'' @ [CHR 0x22]
                  @ '' - should this be a string literal in single-quotes?''), []), d)"
  by (simp add: route_mark_lunas_def markAsLunas_stored_throws)

lemma route_mark_lunas_missing:
  "authenticateToken secret now h = Next user \<Longrightarrow>
   find (\<lambda>x. t_id x = i) (transactions d) = None \<Longrightarrow>
     route_mark_lunas formatIDR secret now h i d =
       ((failure 404 ''Transaksi tidak ditemukan'', []), d)"
  by (simp add: route_mark_lunas_def markAsLunas_missing)

text \<open>
  C1 on the code, at the sample store. Transaction 2 is stored and pending, of
  amount 150000. \<open>markAsLunas\<close> for it, called by the stored user 1, throws
  while preparing the UPDATE: the store is returned as it was, with all three
  transactions pending and no receipt, and the route answers 500. For the id 7,
  which no transaction has, the function returns false, the store is as it was
  and the route answers 404.
\<close>

theorem markAsLunas_throws_on_stored_id:
  "find (\<lambda>x. t_id x = 2) (transactions ex_db) = Some (ex_bill 2 2 ''Budi'' 150000 Pending)
   \<and> markAsLunas ex_formatIDR 2 (Some 1) 500 ex_db =
       (Inl (SqliteError (''no such column: '' @ [CHR 0x22] @ ''lunas'' @ [CHR 0x22]
               @ '' - should this be a string literal in single-quotes?'')), ex_db)
   \<and> map status (transactions ex_db) = [Pending, Pending, Pending]
   \<and> route_mark_lunas ex_formatIDR ex_secret 500
        (Bearer (Jwt (jwt_sign \<lparr>jwt_id = 1, jwt_username = ''admin'', jwt_role = Admin\<rparr>
                        ex_secret 400))) 2 ex_db =
       ((failure 500 (''no such column: '' @ [CHR 0x22] @ ''lunas'' @ [CHR 0x22]
                  @ '' - should this be a string literal in single-quotes?''), []), ex_db)
   \<and> find (\<lambda>x. t_id x = 7) (transactions ex_db) = None
   \<and> markAsLunas ex_formatIDR 7 (Some 1) 500 ex_db = (Inr False, ex_db)
   \<and> route_mark_lunas ex_formatIDR ex_secret 500
        (Bearer (Jwt (jwt_sign \<lparr>jwt_id = 1, jwt_username = ''admin'', jwt_role = Admin\<rparr>
                        ex_secret 400))) 7 ex_db =
       ((failure 404 ''Transaksi tidak ditemukan'', []), ex_db)"
proof -
  let ?h = "Bearer (Jwt (jwt_sign \<lparr>jwt_id = 1, jwt_username = ''admin'', jwt_role = Admin\<rparr>
                           ex_secret 400))"
  have t: "find (\<lambda>x. t_id x = 2) (transactions ex_db) = Some (ex_bill 2 2 ''Budi'' 150000 Pending)"
    by (simp add: ex_db_def ex_bill_def)
  have n: "find (\<lambda>x. t_id x = 7) (transactions ex_db) = None"
    by (simp add: ex_db_def ex_bill_def)
  have a: "authenticateToken ex_secret 500 ?h =
      Next \<lparr>jwt_id = 1, jwt_username = ''admin'', jwt_role = Admin\<rparr>"
    by (simp add: authenticateToken_def jwt_verify_def jwt_sign_def)
  have s: "map status (transactions ex_db) = [Pending, Pending, Pending]"
    by (simp add: ex_db_def ex_bill_def)
  note c1 = markAsLunas_stored_throws [OF t, of ex_formatIDR "Some 1" 500]
  note c2 = route_mark_lunas_stored [OF a t, of ex_formatIDR]
  note c3 = markAsLunas_missing [OF n, of ex_formatIDR "Some 1" 500]
  note c4 = route_mark_lunas_missing [OF a n, of ex_formatIDR]
  from t c1 s c2 n c3 c4 show ?thesis by blast
qed

text \<open>
  C8 on the code, at a store whose only transaction, of id 1 and amount 150000,
  is already lunas. The first call of \<open>markAsLunas\<close> for it throws while
  preparing the UPDATE and leaves the store as it was; so does the second call.
  The table holds the one transaction afterwards and no receipt.
\<close>

theorem markAsLunas_twice_throws_twice:
  "find (\<lambda>x. t_id x = 1) (transactions (ex_db\<lparr>transactions := [ex_bill 1 1 ''Ani'' 150000 Lunas]\<rparr>))
     = Some (ex_bill 1 1 ''Ani'' 150000 Lunas)
   \<and> status (ex_bill 1 1 ''Ani'' 150000 Lunas) = Lunas
   \<and> markAsLunas ex_formatIDR 1 None 500
        (ex_db\<lparr>transactions := [ex_bill 1 1 ''Ani'' 150000 Lunas]\<rparr>) =
       (Inl (SqliteError (''no such column: '' @ [CHR 0x22] @ ''lunas'' @ [CHR 0x22]
               @ '' - should this be a string literal in single-quotes?'')),
        ex_db\<lparr>transactions := [ex_bill 1 1 ''Ani'' 150000 Lunas]\<rparr>)
   \<and> markAsLunas ex_formatIDR 1 None 600
        (snd (markAsLunas ex_formatIDR 1 None 500
                (ex_db\<lparr>transactions := [ex_bill 1 1 ''Ani'' 150000 Lunas]\<rparr>))) =
       (Inl (SqliteError (''no such column: '' @ [CHR 0x22] @ ''lunas'' @ [CHR 0x22]
               @ '' - should this be a string literal in single-quotes?'')),
        ex_db\<lparr>transactions := [ex_bill 1 1 ''Ani'' 150000 Lunas]\<rparr>)
   \<and> transactions (snd (markAsLunas ex_formatIDR 1 None 600
        (snd (markAsLunas ex_formatIDR 1 None 500
                (ex_db\<lparr>transactions := [ex_bill 1 1 ''Ani'' 150000 Lunas]\<rparr>))))) =
       [ex_bill 1 1 ''Ani'' 150000 Lunas]"
proof -
  let ?d = "ex_db\<lparr>transactions := [ex_bill 1 1 ''Ani'' 150000 Lunas]\<rparr>"
  have t: "find (\<lambda>x. t_id x = 1) (transactions ?d) = Some (ex_bill 1 1 ''Ani'' 150000 Lunas)"
    by (simp add: ex_bill_def)
  have s: "status (ex_bill 1 1 ''Ani'' 150000 Lunas) = Lunas"
    by (simp add: ex_bill_def)
  note first = markAsLunas_stored_throws [OF t, of ex_formatIDR None 500]
  note again = markAsLunas_stored_throws [OF t, of ex_formatIDR None 600]
  have second: "markAsLunas ex_formatIDR 1 None 600 (snd (markAsLunas ex_formatIDR 1 None 500 ?d)) =
       (Inl (SqliteError (''no such column: '' @ [CHR 0x22] @ ''lunas'' @ [CHR 0x22]
               @ '' - should this be a string literal in single-quotes?'')), ?d)"
    unfolding first snd_conv by (rule again)
  have after: "transactions (snd (markAsLunas ex_formatIDR 1 None 600
        (snd (markAsLunas ex_formatIDR 1 None 500 ?d)))) = [ex_bill 1 1 ''Ani'' 150000 Lunas]"
    unfolding second snd_conv by simp
  from t s first second after show ?thesis by blast
qed

section \<open>Tokens of a deactivated user\<close>

lemma auth_verify_rejects_inactive:
  assumes "userOps_getById (jwt_id (payload t)) d = Some u" and "u_aktif u = 0"
  shows "http_status (auth_verify secret now (Bearer (Jwt t)) d) = 401
       \<and> \<not> success (auth_verify secret now (Bearer (Jwt t)) d)"
  using assms by (simp add: auth_verify_def jwt_verify_def failure_def)

text \<open>
  C5 at a concrete input. The staff user logs in at time 1000 and receives a
  token valid until 87400; an update then clears the user's active flag. At time
  2000 \<^verbatim>\<open>GET /api/auth/verify\<close> rejects the token with 401, and a new login is
  refused, but the middleware \<open>authenticateToken\<close>, which guards every other
  route, accepts the same token, and \<^verbatim>\<open>GET /api/customers/1\<close> behind it answers
  200 with the customer.
\<close>

theorem deactivated_token_passes_middleware:
  "body (fst (login ex_compareSync ex_secret 1000 ''staff'' ''staff123'' ex_db)) =
     Some (ex_staff_token, principal_of ex_staff)
   \<and> jwt_exp ex_staff_token = 87400
   \<and> map u_aktif (users ex_db_deactivated) = [1, 0]
   \<and> auth_verify ex_secret 2000 (Bearer (Jwt ex_staff_token)) ex_db_deactivated =
       failure 401 ''User tidak valid''
   \<and> fst (login ex_compareSync ex_secret 2000 ''staff'' ''staff123'' ex_db_deactivated) =
       failure 401 ''Akun tidak aktif''
   \<and> authenticateToken ex_secret 2000 (Bearer (Jwt ex_staff_token)) =
       Next \<lparr>jwt_id = 2, jwt_username = ''staff'', jwt_role = Staff\<rparr>
   \<and> route_get_customer ex_secret 2000 (Bearer (Jwt ex_staff_token)) 1 ex_db_deactivated =
       succeed (Some (ex_customer 1 ''Ani'' ''0811''))"
proof -
  note users_defs = ex_db_def ex_admin_def ex_staff_def
  have l: "login ex_compareSync ex_secret 1000 ''staff'' ''staff123'' ex_db =
      (succeed (Some (ex_staff_token, principal_of ex_staff)),
       ex_db\<lparr>activity_logs :=
          [\<lparr>a_id = 1, user_id = Some 2, action = ''LOGIN'',
            details = ''User login ke sistem'', ip_address = []\<rparr>],
          seq_activity_logs := 1\<rparr>)"
    by (simp add: login_def userOps_getByUsername_def logActivity_def fk_user_def
        user_exists_def next_rowid_def ex_compareSync_def ex_hashSync_def ex_staff_token_def
        principal_of_def users_defs Let_def)
  have d: "users ex_db_deactivated = [ex_admin, ex_staff\<lparr>u_aktif := 0\<rparr>]"
    by (simp add: ex_db_deactivated_def l userOps_update_def Let_def)
       (simp add: users_defs or_null_text_def)
  have c1: "body (fst (login ex_compareSync ex_secret 1000 ''staff'' ''staff123'' ex_db)) =
     Some (ex_staff_token, principal_of ex_staff)"
    by (simp add: l succeed_def)
  have c2: "jwt_exp ex_staff_token = 87400"
    by (simp add: ex_staff_token_def jwt_sign_def)
  have c3: "map u_aktif (users ex_db_deactivated) = [1, 0]"
    by (simp add: d ex_admin_def)
  have v: "jwt_verify (Jwt ex_staff_token) ex_secret 2000 =
      Inr \<lparr>jwt_id = 2, jwt_username = ''staff'', jwt_role = Staff\<rparr>"
    by (simp add: jwt_verify_def ex_staff_token_def jwt_sign_def)
  have c4: "auth_verify ex_secret 2000 (Bearer (Jwt ex_staff_token)) ex_db_deactivated =
       failure 401 ''User tidak valid''"
    by (simp add: auth_verify_def v userOps_getById_def d ex_admin_def ex_staff_def)
  have c5: "fst (login ex_compareSync ex_secret 2000 ''staff'' ''staff123'' ex_db_deactivated) =
       failure 401 ''Akun tidak aktif''"
    by (simp add: login_def userOps_getByUsername_def d ex_admin_def ex_staff_def)
  have c6: "authenticateToken ex_secret 2000 (Bearer (Jwt ex_staff_token)) =
       Next \<lparr>jwt_id = 2, jwt_username = ''staff'', jwt_role = Staff\<rparr>"
    by (simp add: authenticateToken_def v)
  have cs: "customers ex_db_deactivated = customers ex_db"
    by (simp add: ex_db_deactivated_def l userOps_update_def Let_def)
  have g: "customerOps_getById 1 ex_db_deactivated = Some (ex_customer 1 ''Ani'' ''0811'')"
    by (simp add: customerOps_getById_def cs ex_db_def ex_customer_def)
  have c7: "route_get_customer ex_secret 2000 (Bearer (Jwt ex_staff_token)) 1 ex_db_deactivated =
       succeed (Some (ex_customer 1 ''Ani'' ''0811''))"
    by (simp only: route_get_customer_def c6 g gate.case option.case)
  from c1 c2 c3 c4 c5 c6 c7 show ?thesis by blast
qed

section \<open>Broadcasting to the debtors\<close>

text \<open>
  A summary is returned only when every send succeeded: its failed count is the
  one the loop started with.
\<close>

lemma broadcast_loop_summary:
  "fst (broadcast_loop deliver formatMessage template userId rows res w) = Inr res' \<Longrightarrow>
     r_total res' = r_total res + length rows
   \<and> r_success res' = r_success res + length rows
   \<and> r_failed res' = r_failed res"
proof (induction rows arbitrary: res w)
  case Nil
  then show ?case by simp
next
  case (Cons row rows)
  let ?send = "sendBillingMessage deliver (c_id (fst row))
                 (formatMessage template (fst row) (snd row)) userId w"
  obtain r w' where s: "?send = (r, w')" by (cases ?send)
  show ?case
  proof (cases r)
    case (Inl e)
    with s Cons.prems show ?thesis by (simp add: Let_def)
  next
    case (Inr sr)
    show ?thesis
    proof (cases sr)
      case (SendOk n p)
      with s Inr Cons.prems
      have "fst (broadcast_loop deliver formatMessage template userId rows
                   (res\<lparr>r_total := r_total res + 1, r_success := r_success res + 1,
                        r_details := r_details res @
                          [\<lparr>det_customer = nama (fst row), det_status = Success,
                            det_error = None\<rparr>]\<rparr>) w') = Inr res'"
        by (simp add: Let_def)
      from Cons.IH [OF this] show ?thesis by simp
    next
      case (SendFailed m)
      with s Inr sendBillingMessage_never_reports_failure
        [of deliver "c_id (fst row)" "formatMessage template (fst row) (snd row)" userId w m]
      show ?thesis by simp
    qed
  qed
qed

lemma ex_debtors:
  "getWithPending ex_db =
     Inr [(ex_customer 1 ''Ani'' ''0811'', 150000), (ex_customer 2 ''Budi'' ''0812'', 150000),
          (ex_customer 3 ''Cici'' ''0813'', 22000)]"
  by (simp add: getWithPending_def pending_of_def ex_db_def ex_customer_def ex_bill_def
      int64_def js_number_def)

text \<open>
  C2 at a concrete input: three debtors, a ready gateway, and a transport that
  rejects the second send. The send to the first debtor is logged; the second
  ends in the exception of the catch clause, which leaves the loop; the reply is
  the failure ``customer is not defined'' without a summary, and the transport
  was called for the first two debtors only.
\<close>

theorem broadcast_aborts_on_failed_send:
  "getWithPending (store ex_world) =
     Inr [(ex_customer 1 ''Ani'' ''0811'', 150000), (ex_customer 2 ''Budi'' ''0812'', 150000),
          (ex_customer 3 ''Cici'' ''0813'', 22000)]
   \<and> fst (broadcastBillingMessage ex_second_fails ex_formatMessage ''Tagihan'' (Some 1) ex_world)
       = BroadcastFailed ''customer is not defined''
   \<and> sendMessage_calls (gateway (snd
         (broadcastBillingMessage ex_second_fails ex_formatMessage ''Tagihan'' (Some 1) ex_world)))
       = [(''62811@c.us'', ''Tagihan Ani''), (''62812@c.us'', ''Tagihan Budi'')]
   \<and> map m_customer_nama (message_logs (store (snd
         (broadcastBillingMessage ex_second_fails ex_formatMessage ''Tagihan'' (Some 1) ex_world))))
       = [Some ''Ani'']
   \<and> fst (broadcastBillingMessage ex_second_fails ex_formatMessage ''Tagihan'' (Some 1) ex_world)
       \<noteq> BroadcastCompleted \<lparr>r_total = 3, r_success = 2, r_failed = 1,
            r_details = [\<lparr>det_customer = ''Ani'', det_status = Success, det_error = None\<rparr>,
                         \<lparr>det_customer = ''Budi'', det_status = Failed,
                          det_error = Some ''Evaluation failed''\<rparr>,
                         \<lparr>det_customer = ''Cici'', det_status = Success, det_error = None\<rparr>]\<rparr>"
proof -
  let ?row1 = "\<lparr>m_id = Suc 0, m_customer_id = Some (Suc 0), m_customer_nama = Some ''Ani'',
      phone = ''62811'', message_type = ''billing'', m_status = Success,
      message_preview = Some ''Tagihan Ani'', error_message = None, sent_by = Some (Suc 0)\<rparr>"
  let ?w1 = "\<lparr>store = ex_db\<lparr>message_logs := [?row1], seq_message_logs := Suc 0\<rparr>,
              gateway = ex_ready\<lparr>sendMessage_calls := [(''62811@c.us'', ''Tagihan Ani'')]\<rparr>\<rparr>"
  let ?w2 = "\<lparr>store = ex_db\<lparr>message_logs := [?row1], seq_message_logs := Suc 0\<rparr>,
              gateway = ex_ready\<lparr>sendMessage_calls :=
                [(''62811@c.us'', ''Tagihan Ani''), (''62812@c.us'', ''Tagihan Budi'')]\<rparr>\<rparr>"
  have p: "format_phone (digits_only (whatsapp (ex_customer i n (CHR ''0'' # ''81'' @ [c])))) =
             ''6281'' @ [c]"
    if "c \<in> set ''0123456789''" for i n c
    using that by (simp add: format_phone_def digits_only_def ex_customer_def)
  have g1: "customerOps_getById (Suc 0) ex_db = Some (ex_customer 1 ''Ani'' ''0811'')"
    by (simp add: customerOps_getById_def ex_db_def ex_customer_def)
  have g2: "customerOps_getById 2 (ex_db\<lparr>message_logs := ml, seq_message_logs := sq\<rparr>) =
      Some (ex_customer 2 ''Budi'' ''0812'')" for ml sq
    by (simp add: customerOps_getById_def ex_db_def ex_customer_def)
  have m1: "messageOps_create
      \<lparr>d_customer_id = Some (Suc 0), d_customer_nama = Some ''Ani'', d_phone = Some ''62811'',
       d_message_type = ''billing'', d_status = Success,
       d_message_preview = Some ''Tagihan Ani'', d_error_message = None,
       d_sent_by = Some (Suc 0)\<rparr> ex_db =
      (Inr (Suc 0), ex_db\<lparr>message_logs := [?row1], seq_message_logs := Suc 0\<rparr>)"
    by (simp add: messageOps_create_def fk_customer_def fk_user_def customer_exists_def
        user_exists_def or_null_id_def or_null_text_def truthy_id_def next_rowid_def
        ex_db_def ex_customer_def ex_admin_def ex_staff_def Let_def)
  have s1: "sendBillingMessage ex_second_fails (Suc 0) ''Tagihan Ani'' (Some (Suc 0)) ex_world =
      (Inr (SendOk ''Ani'' ''62811''), ?w1)"
    by (simp add: sendBillingMessage_def try_send_def ex_world_def ex_ready_def g1
        ex_second_fails_def Let_def)
       (simp add: ex_customer_def format_phone_def digits_only_def m1)
  have s2: "sendBillingMessage ex_second_fails 2 ''Tagihan Budi'' (Some (Suc 0)) ?w1 =
      (Inl (ReferenceError ''customer is not defined''), ?w2)"
    by (simp add: sendBillingMessage_def try_send_def catch_send_throws ex_ready_def g2
        ex_second_fails_def Let_def)
       (simp add: ex_customer_def format_phone_def digits_only_def)
  have b: "broadcastBillingMessage ex_second_fails ex_formatMessage ''Tagihan'' (Some 1) ex_world =
      (BroadcastFailed ''customer is not defined'', ?w2)"
    by (simp add: broadcastBillingMessage_def ex_world_def ex_debtors ex_formatMessage_def Let_def)
       (simp add: ex_customer_def ex_formatMessage_def Let_def s1 [unfolded ex_world_def] s2)
  have c1: "getWithPending (store ex_world) =
     Inr [(ex_customer 1 ''Ani'' ''0811'', 150000), (ex_customer 2 ''Budi'' ''0812'', 150000),
          (ex_customer 3 ''Cici'' ''0813'', 22000)]"
    by (simp add: ex_world_def ex_debtors)
  from b c1 show ?thesis by (simp add: ex_ready_def)
qed

section \<open>The event stream\<close>

lemma res_write_simps:
  "written (res_write c f s) ch = (if c = ch then written s ch @ [f] else written s ch)"
  "clients (res_write c f s) = clients s"
  "wa (res_write c f s) = wa s"
  by (simp_all add: res_write_def)

lemma fold_res_write:
  "written (fold (\<lambda>c. res_write c f) cs s) ch = written s ch @ replicate (count_list cs ch) f
   \<and> clients (fold (\<lambda>c. res_write c f) cs s) = clients s
   \<and> wa (fold (\<lambda>c. res_write c f) cs s) = wa s"
proof (induction cs arbitrary: s)
  case Nil
  show ?case by simp
next
  case (Cons c cs)
  show ?case
    by (simp add: Cons.IH [of "res_write c f s"] res_write_simps replicate_app_Cons_same)
qed

lemma broadcast_clients [simp]: "clients (broadcast f s) = clients s"
  by (simp add: broadcast_def fold_res_write)

lemma broadcast_wa [simp]: "wa (broadcast f s) = wa s"
  by (simp add: broadcast_def fold_res_write)

lemma broadcast_absent: "ch \<notin> set (clients s) \<Longrightarrow> written (broadcast f s) ch = written s ch"
  by (simp add: broadcast_def fold_res_write)

lemma count_list_distinct: "distinct xs \<Longrightarrow> x \<in> set xs \<Longrightarrow> count_list xs x = 1"
  by (induction xs) auto

lemma broadcast_present:
  "ch \<in> set (clients s) \<Longrightarrow> distinct (clients s) \<Longrightarrow>
     written (broadcast f s) ch = written s ch @ [f]"
  by (simp add: broadcast_def fold_res_write count_list_distinct)

lemma connects_append: "connects (xs @ ys) = connects xs @ connects ys"
  by (induction xs rule: connects.induct) simp_all

lemma run_append: "run (xs @ ys) s = run ys (run xs s)"
  by (simp add: run_def)

lemma run_Cons: "run (x # xs) s = run xs (step x s)"
  by (simp add: run_def)

lemma step_distinct: "distinct (clients s) \<Longrightarrow> distinct (clients (step a s))"
  by (cases a)
     (simp_all add: events_connect_def events_close_def broadcastStatus_def res_write_def
        clients_add_def Let_def distinct_removeAll)

lemma run_distinct: "distinct (clients s) \<Longrightarrow> distinct (clients (run as s))"
  by (induction as arbitrary: s) (simp_all add: run_def step_distinct)

text \<open>A response that is not registered and does not connect receives nothing.\<close>

lemma run_absent:
  "ch \<notin> set (clients s) \<Longrightarrow> ch \<notin> set (connects as) \<Longrightarrow>
     written (run as s) ch = written s ch \<and> ch \<notin> set (clients (run as s))"
proof (induction as arbitrary: s)
  case Nil
  then show ?case by (simp add: run_def)
next
  case (Cons a as)
  have "written (step a s) ch = written s ch \<and> ch \<notin> set (clients (step a s))"
  proof (cases a)
    case (Connect c now)
    with Cons.prems have "c \<noteq> ch" by auto
    with Connect Cons.prems(1) show ?thesis
      by (simp add: events_connect_def res_write_def clients_add_def Let_def)
  next
    case (Close c)
    with Cons.prems(1) show ?thesis by (simp add: events_close_def)
  next
    case (Publish f)
    with Cons.prems(1) show ?thesis by (simp add: broadcast_absent)
  next
    case (StatusChange st now)
    with Cons.prems(1) show ?thesis by (simp add: broadcastStatus_def broadcast_absent)
  qed
  moreover from Cons.prems(2) have "ch \<notin> set (connects as)"
    by (cases a) simp_all
  ultimately show ?case
    using Cons.IH [of "step a s"] by (simp add: run_Cons)
qed

text \<open>A registered response receives what is published until its close.\<close>

lemma run_present:
  "ch \<in> set (clients s) \<Longrightarrow> distinct (clients s) \<Longrightarrow> ch \<notin> set (connects as) \<Longrightarrow>
     written (run as s) ch = written s ch @ published_until_close ch as"
proof (induction as arbitrary: s)
  case Nil
  then show ?case by (simp add: run_def)
next
  case (Cons a as)
  from Cons.prems(3) have rest: "ch \<notin> set (connects as)"
    by (cases a) simp_all
  note d = step_distinct [OF Cons.prems(2), of a]
  show ?case
  proof (cases a)
    case (Connect c now)
    with Cons.prems have ne: "c \<noteq> ch" by auto
    from Connect ne Cons.prems(1)
    have "written (step a s) ch = written s ch" and "ch \<in> set (clients (step a s))"
      by (simp_all add: events_connect_def res_write_def clients_add_def Let_def)
    with Cons.IH [OF _ d rest] Connect show ?thesis by (simp add: run_Cons)
  next
    case (Close c)
    show ?thesis
    proof (cases "c = ch")
      case True
      with Close have "ch \<notin> set (clients (step a s))" and "written (step a s) ch = written s ch"
        by (simp_all add: events_close_def)
      with run_absent [OF _ rest, of "step a s"] Close True show ?thesis
        by (simp add: run_Cons)
    next
      case False
      with Close Cons.prems(1)
      have "written (step a s) ch = written s ch" and "ch \<in> set (clients (step a s))"
        by (simp_all add: events_close_def)
      with Cons.IH [OF _ d rest] Close False show ?thesis by (simp add: run_Cons)
    qed
  next
    case (Publish f)
    with Cons.prems have "written (step a s) ch = written s ch @ [f]"
      and "ch \<in> set (clients (step a s))"
      by (simp_all add: broadcast_present)
    with Cons.IH [OF _ d rest] Publish show ?thesis by (simp add: run_Cons)
  next
    case (StatusChange st now)
    with Cons.prems
    have "written (step a s) ch = written s ch @ [Frame ''wa_status'' (Some (StatusData st now))]"
      and "ch \<in> set (clients (step a s))"
      by (simp_all add: broadcastStatus_def broadcast_present getStatus_def)
    with Cons.IH [OF _ d rest] StatusChange show ?thesis by (simp add: run_Cons)
  qed
qed

text \<open>The status the gateway reports after a run is that of its last status change.\<close>

lemma step_status:
  "clientStatus (wa (step a s)) = last_status [a] (clientStatus (wa s))"
  by (cases a)
     (simp_all add: events_connect_def events_close_def broadcastStatus_def res_write_def Let_def)

lemma last_status_Cons: "last_status (a # as) st = last_status as (last_status [a] st)"
  by (cases a) simp_all

lemma run_status: "clientStatus (wa (run as s)) = last_status as (clientStatus (wa s))"
proof (induction as arbitrary: s)
  case Nil
  show ?case by (simp add: run_def)
next
  case (Cons a as)
  have "clientStatus (wa (run (a # as) s)) = last_status as (clientStatus (wa (step a s)))"
    by (simp add: run_Cons Cons.IH)
  also have "\<dots> = last_status (a # as) (clientStatus (wa s))"
    by (simp add: step_status last_status_Cons [of a as])
  finally show ?case .
qed

text \<open>
  C6. In a run of the server from its start in which every connection to the event
  stream is a response object of its own, a response receives first the
  ``connected'' event, second the gateway status current at that moment, which
  is the status of the last status change before the connection, or
  ``disconnected'' when there was none, stamped with the time of the connection,
  and after these exactly the events published from then on until its close, in
  order. Nothing published before its connection reaches it.
\<close>

theorem subscriber_sees_ack_status_then_later_events:
  assumes "distinct (connects (pre @ Connect ch now # post))"
  shows "written (run (pre @ Connect ch now # post) server_init) ch =
           Frame ''connected'' None
           # Frame ''wa_status'' (Some (StatusData (last_status pre ''disconnected'') now))
           # published_until_close ch post"
proof -
  from assms have pre: "ch \<notin> set (connects pre)" and post: "ch \<notin> set (connects post)"
    by (simp_all add: connects_append)
  let ?s = "run pre server_init"
  have init: "ch \<notin> set (clients server_init)" "distinct (clients server_init)"
    "written server_init ch = []"
    by (simp_all add: server_init_def)
  from run_absent [OF init(1) pre] init(3)
  have before: "written ?s ch = []" "ch \<notin> set (clients ?s)"
    by simp_all
  have dist: "distinct (clients ?s)"
    by (rule run_distinct [OF init(2)])
  have status: "clientStatus (wa ?s) = last_status pre ''disconnected''"
    by (simp add: run_status server_init_def)
  let ?c = "step (Connect ch now) ?s"
  from before have w: "written ?c ch =
      [Frame ''connected'' None,
       Frame ''wa_status'' (Some (StatusData (last_status pre ''disconnected'') now))]"
    by (simp add: events_connect_def res_write_def getStatus_def Let_def status)
  have m: "ch \<in> set (clients ?c)"
    by (simp add: events_connect_def res_write_def clients_add_def Let_def)
  have d: "distinct (clients ?c)"
    by (rule step_distinct [OF dist])
  from run_present [OF m d post] w show ?thesis
    by (simp add: run_append run_Cons)
qed

theorem subscriber_sees_ack_status_then_later_events_witness:
  "distinct (connects ([StatusChange ''qr'' 3, Publish (Frame ''customer_updated'' None),
                        StatusChange ''ready'' 5, Connect 4 9]
       @ Connect 5 10 # [Publish (Frame ''transaction_updated'' None),
                          StatusChange ''disconnected'' 11, Close 5,
                          Publish (Frame ''settings_updated'' None)]))
   \<and> written (run ([StatusChange ''qr'' 3, Publish (Frame ''customer_updated'' None),
                     StatusChange ''ready'' 5, Connect 4 9]
       @ Connect 5 10 # [Publish (Frame ''transaction_updated'' None),
                          StatusChange ''disconnected'' 11, Close 5,
                          Publish (Frame ''settings_updated'' None)]) server_init) 5 =
      [Frame ''connected'' None, Frame ''wa_status'' (Some (StatusData ''ready'' 10)),
       Frame ''transaction_updated'' None,
       Frame ''wa_status'' (Some (StatusData ''disconnected'' 11))]"
proof -
  let ?pre = "[StatusChange ''qr'' 3, Publish (Frame ''customer_updated'' None),
               StatusChange ''ready'' 5, Connect 4 9]"
  let ?post = "[Publish (Frame ''transaction_updated'' None), StatusChange ''disconnected'' 11,
                Close 5, Publish (Frame ''settings_updated'' None)]"
  have h: "distinct (connects (?pre @ Connect 5 10 # ?post))"
    by simp
  from subscriber_sees_ack_status_then_later_events [OF h] h show ?thesis
    by simp
qed

end
